theory Spec2Isabelle
  imports Complex_Main "HOL-Library.AList"
begin

section \<open>JavaScript values\<close>

text \<open>
  The reducer of \<^verbatim>\<open>lib/gui/models/store.js\<close> receives plain JavaScript data as
  action payloads and keeps it in an Immutable.js tree. Payloads are modelled as JSON-like
  values. A number is a finite rational, \<open>NaN\<close> or one of the infinities (every IEEE double
  is one of these; \<open>0\<close> and \<open>-0\<close> are the same value, as they are for \<^verbatim>\<open>===\<close>).
  An object is an association list in insertion order; \<open>JUndefined\<close> is what reading an
  absent property gives. \<^verbatim>\<open>Immutable.fromJS\<close> and \<^verbatim>\<open>toJS\<close> convert between plain data
  and Immutable collections without changing the content, so both are the identity on
  \<open>jsval\<close>.
\<close>

datatype jsnum = Fin rat | NaN | PosInfinity | NegInfinity

datatype jsval =
    JUndefined
  | JNull
  | JBool bool
  | JNum jsnum
  | JStr string
  | JArr "jsval list"
  | JObj "(string \<times> jsval) list"

type_synonym obj = "(string \<times> jsval) list"

text \<open>
  An exception: \<^verbatim>\<open>new Error(msg)\<close> with a fixed message, \<^verbatim>\<open>new Error(`msg${v}`)\<close>
  with the interpolated value kept apart, or the \<^verbatim>\<open>TypeError\<close> the engine raises when a
  property of \<^verbatim>\<open>undefined\<close>/\<^verbatim>\<open>null\<close> is read or a missing method is called.
  \<open>NeverReturns\<close> is no exception: it is the outcome of an evaluation that does not end,
  which only lodash's loop over an array-like value can produce (see \<open>baseExtremum\<close>).
  Nothing catches it.
\<close>

datatype error = Error string | ErrorWith string jsval | TypeError string | NeverReturns

text \<open>JavaScript truthiness, as used by \<^verbatim>\<open>!x\<close>, \<^verbatim>\<open>x && y\<close>, \<^verbatim>\<open>x || y\<close> and \<^verbatim>\<open>if (x)\<close>.\<close>

fun truthy :: "jsval \<Rightarrow> bool" where
  "truthy JUndefined = False"
| "truthy JNull = False"
| "truthy (JBool b) = b"
| "truthy (JNum n) = (n \<noteq> Fin 0 \<and> n \<noteq> NaN)"
| "truthy (JStr s) = (s \<noteq> [])"
| "truthy (JArr xs) = True"
| "truthy (JObj kvs) = True"

text \<open>The lodash type predicates the reducer uses.\<close>

fun isString :: "jsval \<Rightarrow> bool" where
  "isString (JStr s) = True"
| "isString v = False"

fun isNumber :: "jsval \<Rightarrow> bool" where
  "isNumber (JNum n) = True"
| "isNumber v = False"

fun isBoolean :: "jsval \<Rightarrow> bool" where
  "isBoolean (JBool b) = True"
| "isBoolean v = False"

fun isUndefined :: "jsval \<Rightarrow> bool" where
  "isUndefined JUndefined = True"
| "isUndefined v = False"

fun isNull :: "jsval \<Rightarrow> bool" where
  "isNull JNull = True"
| "isNull v = False"

fun isObject :: "jsval \<Rightarrow> bool" where
  "isObject (JArr xs) = True"
| "isObject (JObj kvs) = True"
| "isObject v = False"

fun isEmpty :: "jsval \<Rightarrow> bool" where
  "isEmpty (JArr xs) = (xs = [])"
| "isEmpty (JObj kvs) = (kvs = [])"
| "isEmpty (JStr s) = (s = [])"
| "isEmpty v = True"

text \<open>\<^verbatim>\<open>map.get(k)\<close> on an Immutable map, \<^verbatim>\<open>o[k]\<close> on a plain object.\<close>

definition get :: "obj \<Rightarrow> string \<Rightarrow> jsval" where
  "get kvs k = (case map_of kvs k of None \<Rightarrow> JUndefined | Some v \<Rightarrow> v)"

text \<open>
  \<^verbatim>\<open>v.k\<close> for a value that is not \<^verbatim>\<open>undefined\<close> or \<^verbatim>\<open>null\<close>: an object is looked up;
  a primitive or an array has none of the property names the reducer reads.
  On \<^verbatim>\<open>undefined\<close> and \<^verbatim>\<open>null\<close> the read throws, which each caller checks with
  \<open>nullish\<close> before its first read.
\<close>

fun member :: "jsval \<Rightarrow> string \<Rightarrow> jsval" where
  "member (JObj kvs) k = get kvs k"
| "member v k = JUndefined"

fun nullish :: "jsval \<Rightarrow> bool" where
  "nullish JUndefined = True"
| "nullish JNull = True"
| "nullish v = False"

definition cannot_read :: "string \<Rightarrow> error + 'a" where
  "cannot_read k = Inl (TypeError (''Cannot read property '' @ k))"

text \<open>\<^verbatim>\<open>a || b\<close>\<close>

definition js_or :: "jsval \<Rightarrow> jsval \<Rightarrow> jsval" where
  "js_or a b = (if truthy a then a else b)"

text \<open>
  \<^verbatim>\<open>x.toJS()\<close>: defined on Immutable collections only; on anything else the call is a
  \<^verbatim>\<open>TypeError\<close>. \<open>getIn_toJS\<close> is \<^verbatim>\<open>state.getIn(path, Immutable.fromJS({})).toJS()\<close>.
\<close>

fun toJS :: "jsval \<Rightarrow> error + jsval" where
  "toJS (JObj kvs) = Inr (JObj kvs)"
| "toJS (JArr xs) = Inr (JArr xs)"
| "toJS v = Inl (TypeError ''toJS is not a function'')"

fun getIn_toJS :: "jsval option \<Rightarrow> error + jsval" where
  "getIn_toJS None = Inr (JObj [])"
| "getIn_toJS (Some v) = toJS v"

text \<open>Truthiness of \<^verbatim>\<open>state.getIn(path)\<close>, which is \<^verbatim>\<open>undefined\<close> when the path is unset.\<close>

fun is_set :: "jsval option \<Rightarrow> bool" where
  "is_set None = False"
| "is_set (Some v) = truthy v"

section \<open>The application state\<close>

text \<open>
  The Immutable tree of \<^verbatim>\<open>DEFAULT_STATE\<close>. The three paths under \<^verbatim>\<open>selection\<close> are
  fields of their own; \<open>None\<close> is an unset path. \<^verbatim>\<open>selection.drive\<close> only ever receives
  a string (\<^verbatim>\<open>SELECT_DRIVE\<close> checks \<^verbatim>\<open>_.isString\<close> before it stores).
\<close>

record appstate =
  availableDrives :: "obj list"
  selection_os :: "jsval option"
  selection_drive :: "string option"
  selection_image :: "jsval option"
  isFlashing :: bool
  flashResults :: jsval
  flashState :: jsval
  settings :: obj

definition DEFAULT_STATE :: appstate where
  "DEFAULT_STATE = \<lparr>
     availableDrives = [],
     selection_os = None,
     selection_drive = None,
     selection_image = None,
     isFlashing = False,
     flashResults = JObj [],
     flashState = JObj [(''percentage'', JNum (Fin 0)), (''speed'', JNum (Fin (- 1)))],
     settings = [
       (''unsafeMode'', JBool False),
       (''errorReporting'', JBool True),
       (''unmountOnSuccess'', JBool True),
       (''validateWriteOnSuccess'', JBool True),
       (''sleepUpdateCheck'', JBool False),
       (''lastUpdateNotify'', JNull),
       (''downloadPath'', JNull),
       (''downloadSource'', JStr ''default/boards.json'')]\<rparr>"

text \<open>
  What the reducer is handed and what it hands back: \<^verbatim>\<open>undefined\<close> (replaced by
  \<^verbatim>\<open>DEFAULT_STATE\<close> on entry), an Immutable map, or the \<^verbatim>\<open>Error\<close> object that
  \<^verbatim>\<open>_.attempt\<close> returns in place of a result when its callback throws.
\<close>

datatype jsstate = Undefined | State appstate | ErrorObject error

text \<open>
  A method call on the state (\<^verbatim>\<open>get\<close>, \<^verbatim>\<open>getIn\<close>, \<^verbatim>\<open>set\<close>, \<^verbatim>\<open>setIn\<close>, \<^verbatim>\<open>deleteIn\<close>):
  an \<^verbatim>\<open>Error\<close> object has none of these methods.
\<close>

fun as_map :: "jsstate \<Rightarrow> error + appstate" where
  "as_map (State s) = Inr s"
| "as_map (ErrorObject e) = Inl (TypeError ''not a function'')"
| "as_map Undefined = Inl (TypeError ''not a function'')"

definition update_state :: "(appstate \<Rightarrow> appstate) \<Rightarrow> jsstate \<Rightarrow> error + jsstate" where
  "update_state f s = (case as_map s of Inl e \<Rightarrow> Inl e | Inr st \<Rightarrow> Inr (State (f st)))"

text \<open>\<^verbatim>\<open>_.attempt(func)\<close>: the result of \<^verbatim>\<open>func\<close>, or the error it threw, as a value.\<close>

fun attempt :: "error + jsstate \<Rightarrow> jsstate" where
  "attempt (Inr s) = s"
| "attempt (Inl e) = ErrorObject e"

text \<open>
  \<^verbatim>\<open>_.attempt(func)\<close> together with what the reducer does next with its value
  (\<^verbatim>\<open>return\<close>, \<^verbatim>\<open>.setIn\<close>, \<^verbatim>\<open>.deleteIn\<close>): when \<^verbatim>\<open>func\<close> does not return,
  \<^verbatim>\<open>_.attempt\<close> does not return either and nothing comes next.
\<close>

definition attempted ::
  "error + jsstate \<Rightarrow> (jsstate \<Rightarrow> error + jsstate) \<Rightarrow> error + jsstate" where
  "attempted result continue =
     (if result = Inl NeverReturns then Inl NeverReturns else continue (attempt result))"

text \<open>
  \<^verbatim>\<open>drive.get('device') === selectedDevice\<close>, where \<^verbatim>\<open>selectedDevice\<close> is a string or
  \<^verbatim>\<open>undefined\<close>: on these \<^verbatim>\<open>===\<close> is equality of values.
\<close>

fun device_value :: "string option \<Rightarrow> jsval" where
  "device_value None = JUndefined"
| "device_value (Some d) = JStr d"

definition find_drive :: "jsval \<Rightarrow> obj list \<Rightarrow> obj option" where
  "find_drive device drives = find (\<lambda>drive. get drive ''device'' = device) drives"

section \<open>Actions and collaborators\<close>

record action =
  type :: string
  data :: jsval

definition ACTIONS :: "string list" where
  "ACTIONS = [
     ''SET_AVAILABLE_DRIVES'',
     ''SET_FLASH_STATE'',
     ''RESET_FLASH_STATE'',
     ''SET_FLASHING_FLAG'',
     ''UNSET_FLASHING_FLAG'',
     ''SELECT_OS'',
     ''SELECT_DRIVE'',
     ''SELECT_IMAGE'',
     ''REMOVE_OS'',
     ''REMOVE_DRIVE'',
     ''REMOVE_IMAGE'',
     ''SET_SETTING'']"

text \<open>
  The module \<^verbatim>\<open>../../shared/drive-constraints\<close> is not part of the file; its four
  predicates are parameters, total and pure as the specification requires of them.
  \<open>baseGt\<close> is JavaScript's \<^verbatim>\<open>a > b\<close> on arbitrary values, with which lodash's
  \<^verbatim>\<open>_.maxBy\<close> compares; it is a parameter as well. The third argument of
  \<open>isDriveValid\<close> is \<^verbatim>\<open>undefined\<close> where the source passes two arguments.
\<close>

record env =
  isDriveValid :: "jsval \<Rightarrow> jsval \<Rightarrow> jsval \<Rightarrow> bool"
  isDriveSizeRecommended :: "jsval \<Rightarrow> jsval \<Rightarrow> bool"
  isSystemDrive :: "jsval \<Rightarrow> bool"
  isDriveLargeEnough :: "jsval \<Rightarrow> jsval \<Rightarrow> bool"
  baseGt :: "jsval \<Rightarrow> jsval \<Rightarrow> bool"

text \<open>
  What lodash's loop reads of the value it walks. \<^verbatim>\<open>array.length\<close> is the number of
  elements of an array, the number of characters of a string, and the property \<^verbatim>\<open>length\<close>
  of an object. \<^verbatim>\<open>array[index]\<close> is the element, the character, or for an object the
  property named by the index in decimal.
\<close>

function decimal :: "nat \<Rightarrow> string" where
  "decimal n =
     (if n < 10 then [''0123456789'' ! n]
      else decimal (n div 10) @ [''0123456789'' ! (n mod 10)])"
  by pat_completeness auto

termination
  by (relation "measure (\<lambda>n. n)") auto

declare decimal.simps [simp del]

fun length_of :: "jsval \<Rightarrow> jsval" where
  "length_of (JArr xs) = JNum (Fin (of_nat (length xs)))"
| "length_of (JStr s) = JNum (Fin (of_nat (length s)))"
| "length_of (JObj kvs) = get kvs ''length''"
| "length_of v = JUndefined"

fun element_at :: "jsval \<Rightarrow> nat \<Rightarrow> jsval" where
  "element_at (JArr xs) i = (if i < length xs then xs ! i else JUndefined)"
| "element_at (JStr s) i = (if i < length s then JStr [s ! i] else JUndefined)"
| "element_at (JObj kvs) i = get kvs (decimal i)"
| "element_at v i = JUndefined"

text \<open>
  \<^verbatim>\<open>index < length\<close>, the test of the loop. For a \<^verbatim>\<open>length\<close> that is a number it is the
  order of numbers, false for \<^verbatim>\<open>NaN\<close>; for any other \<^verbatim>\<open>length\<close> it is JavaScript's
  comparison of the two values, \<^verbatim>\<open>length > index\<close>, which is the parameter \<open>baseGt\<close>.
\<close>

fun index_below :: "env \<Rightarrow> nat \<Rightarrow> jsval \<Rightarrow> bool" where
  "index_below c i (JNum (Fin r)) = (of_nat i < r)"
| "index_below c i (JNum NaN) = False"
| "index_below c i (JNum PosInfinity) = True"
| "index_below c i (JNum NegInfinity) = False"
| "index_below c i v = baseGt c v (JNum (Fin (of_nat i)))"

text \<open>
  lodash's \<^verbatim>\<open>baseExtremum\<close>, the loop of \<^verbatim>\<open>_.maxBy\<close>:
  \<^verbatim>\<open>while (++index < length) { value = array[index]; current = iteratee(value); ... }\<close>.
  An element replaces the current best when its key is neither \<^verbatim>\<open>undefined\<close> nor
  \<^verbatim>\<open>null\<close> and, for the first such element, is not \<^verbatim>\<open>NaN\<close>, afterwards is greater than
  the best key. The accumulator is the pair of \<^verbatim>\<open>computed\<close> and \<^verbatim>\<open>result\<close>.

  The index is a double: from 9007199254740992 (2 to the 53) on, \<^verbatim>\<open>++index\<close> leaves it
  as it is. A loop that gets there with its test still true repeats the same step for
  ever, so its outcome is \<open>NeverReturns\<close>. Arrays and strings are too short for that; an
  object with a large enough \<^verbatim>\<open>length\<close> is not.
\<close>

function baseExtremum ::
  "env \<Rightarrow> (jsval \<Rightarrow> error + jsval) \<Rightarrow> jsval \<Rightarrow> nat \<Rightarrow> (jsval \<times> jsval) option
   \<Rightarrow> error + (jsval \<times> jsval) option" where
  "baseExtremum c iteratee array index acc =
     (if \<not> index_below c index (length_of array) then Inr acc
      else case iteratee (element_at array index) of
        Inl e \<Rightarrow> Inl e
      | Inr current \<Rightarrow>
          if 9007199254740992 \<le> index then Inl NeverReturns
          else baseExtremum c iteratee array (Suc index)
            (if \<not> nullish current \<and>
                (case acc of
                   None \<Rightarrow> current \<noteq> JNum NaN
                 | Some (computed, result) \<Rightarrow> baseGt c current computed)
             then Some (current, element_at array index)
             else acc))"
  by pat_completeness auto

termination
  by (relation "measure (\<lambda>(c, iteratee, array, index, acc). 9007199254740992 - index)") auto

declare baseExtremum.simps [simp del]

text \<open>
  \<^verbatim>\<open>_.maxBy(array, iteratee)\<close>: \<^verbatim>\<open>undefined\<close> unless \<^verbatim>\<open>array && array.length\<close>, else
  the \<^verbatim>\<open>result\<close> of the loop.
\<close>

definition maxBy :: "env \<Rightarrow> jsval \<Rightarrow> (jsval \<Rightarrow> error + jsval) \<Rightarrow> error + jsval" where
  "maxBy c array iteratee =
     (if \<not> (truthy array \<and> truthy (length_of array)) then Inr JUndefined
      else case baseExtremum c iteratee array 0 None of
        Inl e \<Rightarrow> Inl e
      | Inr None \<Rightarrow> Inr JUndefined
      | Inr (Some (computed, result)) \<Rightarrow> Inr result)"

definition getRecommendedImage :: "env \<Rightarrow> jsval \<Rightarrow> jsval \<Rightarrow> error + jsval" where
  "getRecommendedImage c drive os =
     (if nullish os then cannot_read ''images''
      else maxBy c (member os ''images'') (\<lambda>image.
        if isDriveSizeRecommended c drive image
        then (if nullish image then cannot_read ''recommendedDriveSize''
              else Inr (member image ''recommendedDriveSize''))
        else Inr JUndefined))"

text \<open>
  The loop of \<^verbatim>\<open>SET_AVAILABLE_DRIVES\<close> that writes \<^verbatim>\<open>drive.recommendedImage\<close> into
  every incoming drive for which \<open>getRecommendedImage\<close> finds an image.
\<close>

fun annotate :: "env \<Rightarrow> jsval \<Rightarrow> obj list \<Rightarrow> error + obj list" where
  "annotate c os [] = Inr []"
| "annotate c os (drive # rest) =
     (case getRecommendedImage c (JObj drive) os of
        Inl e \<Rightarrow> Inl e
      | Inr recommended \<Rightarrow>
          (case annotate c os rest of
             Inl e \<Rightarrow> Inl e
           | Inr rest' \<Rightarrow>
               Inr ((if truthy recommended
                     then AList.update ''recommendedImage'' recommended drive
                     else drive) # rest')))"

text \<open>\<^verbatim>\<open>_.isArray(data) && _.every(data, _.isPlainObject)\<close>, giving the objects.\<close>

fun plain_objects :: "jsval list \<Rightarrow> obj list option" where
  "plain_objects [] = Some []"
| "plain_objects (JObj kvs # rest) =
     (case plain_objects rest of None \<Rightarrow> None | Some objs \<Rightarrow> Some (kvs # objs))"
| "plain_objects (v # rest) = None"

fun array_of_plain_objects :: "jsval \<Rightarrow> obj list option" where
  "array_of_plain_objects (JArr xs) = plain_objects xs"
| "array_of_plain_objects v = None"

text \<open>
  The test for auto-selection in \<^verbatim>\<open>SET_AVAILABLE_DRIVES\<close>: the list has exactly one
  drive and it passes the three checks against the current image and OS.
\<close>

fun auto_selected :: "env \<Rightarrow> jsval \<Rightarrow> jsval \<Rightarrow> obj list \<Rightarrow> obj option" where
  "auto_selected c os img [drive] =
     (if isDriveValid c (JObj drive) img (JBool (\<not> isEmpty os)) \<and>
         isDriveSizeRecommended c (JObj drive) img \<and>
         \<not> isSystemDrive c (JObj drive)
      then Some drive else None)"
| "auto_selected c os img drives = None"

definition has :: "obj \<Rightarrow> string \<Rightarrow> bool" where
  "has kvs k = (k \<in> set (map fst kvs))"

text \<open>
  \<^verbatim>\<open>_.defaults(data, {cancelled: false})\<close> followed by reading \<^verbatim>\<open>data.cancelled\<close>. An
  object gets the property when it has none (or \<^verbatim>\<open>undefined\<close>); an array gets it as a
  non-index property, which \<^verbatim>\<open>Immutable.fromJS\<close> later drops; a primitive is untouched.
\<close>

fun defaults_cancelled :: "jsval \<Rightarrow> jsval" where
  "defaults_cancelled (JObj kvs) =
     (if get kvs ''cancelled'' = JUndefined
      then JObj (AList.update ''cancelled'' (JBool False) kvs) else JObj kvs)"
| "defaults_cancelled v = v"

fun cancelled_of :: "jsval \<Rightarrow> jsval" where
  "cancelled_of (JArr xs) = JBool False"
| "cancelled_of v = member v ''cancelled''"

section \<open>The reducer\<close>

text \<open>
  Cascades only go downwards in this order of the action kinds, which is what makes the
  recursion of the reducer end.
\<close>

definition cascade_rank :: "string \<Rightarrow> nat" where
  "cascade_rank t =
     (if t = ''SELECT_OS'' then 5
      else if t = ''SET_AVAILABLE_DRIVES'' then 4
      else if t = ''SELECT_DRIVE'' then 3
      else if t = ''SELECT_IMAGE'' then 2
      else if t = ''REMOVE_OS'' then 1
      else if t = ''REMOVE_DRIVE'' then 1
      else 0)"

function storeReducer :: "env \<Rightarrow> jsstate \<Rightarrow> action \<Rightarrow> error + jsstate" where
  "storeReducer c state0 action =
    (let state = (case state0 of Undefined \<Rightarrow> State DEFAULT_STATE | s \<Rightarrow> s) in

     if type action = ''SELECT_OS'' then
       (if \<not> truthy (data action) then Inl (Error ''Missing selected operating system'')
        else case as_map state of Inl e \<Rightarrow> Inl e | Inr st \<Rightarrow>
          (let selectedDevice = device_value (selection_drive st);
               selectedDrive = find_drive selectedDevice (availableDrives st)
           in case storeReducer c (State (st\<lparr>selection_os := Some (data action)\<rparr>))
                     \<lparr>type = ''SET_AVAILABLE_DRIVES'',
                      data = JArr (map JObj (availableDrives st))\<rparr> of
                Inl e \<Rightarrow> Inl e
              | Inr newState \<Rightarrow>
                  (case selectedDrive of
                     None \<Rightarrow> Inr newState
                   | Some drive \<Rightarrow>
                       attempted
                         (case getRecommendedImage c (JObj drive) (data action) of
                            Inl e \<Rightarrow> Inl e
                          | Inr recommendedImageForSelectedDrive \<Rightarrow>
                              if \<not> truthy recommendedImageForSelectedDrive
                              then storeReducer c newState
                                     \<lparr>type = ''REMOVE_DRIVE'', data = JUndefined\<rparr>
                              else storeReducer c newState
                                     \<lparr>type = ''SELECT_DRIVE'',
                                      data = get drive ''device''\<rparr>)
                         Inr)))

     else if type action = ''SET_AVAILABLE_DRIVES'' then
       (if \<not> truthy (data action) then Inl (Error ''Missing drives'')
        else case array_of_plain_objects (data action) of
          None \<Rightarrow> Inl (ErrorWith ''Invalid drives: '' (data action))
        | Some incoming \<Rightarrow>
          (case as_map state of Inl e \<Rightarrow> Inl e | Inr st \<Rightarrow>
          (case getIn_toJS (selection_os st) of Inl e \<Rightarrow> Inl e | Inr os \<Rightarrow>
          (case getIn_toJS (selection_image st) of Inl e \<Rightarrow> Inl e | Inr img \<Rightarrow>
          (case annotate c os incoming of Inl e \<Rightarrow> Inl e | Inr drives \<Rightarrow>
             (let newState = st\<lparr>availableDrives := drives\<rparr> in
             (case auto_selected c os img drives of
                Some drive \<Rightarrow>
                  storeReducer c (State newState)
                    \<lparr>type = ''SELECT_DRIVE'', data = get drive ''device''\<rparr>
              | None \<Rightarrow>
                  (let selectedDevice = device_value (selection_drive newState) in
                   if truthy selectedDevice \<and> find_drive selectedDevice drives = None
                   then storeReducer c (State newState)
                          \<lparr>type = ''REMOVE_DRIVE'', data = JUndefined\<rparr>
                   else Inr (State newState)))))))))

     else if type action = ''SET_FLASH_STATE'' then
       (case as_map state of Inl e \<Rightarrow> Inl e | Inr st \<Rightarrow>
        if \<not> isFlashing st
        then Inl (Error ''Can't set the flashing state when not flashing'')
        else if nullish (data action) then cannot_read ''type''
        else if \<not> truthy (member (data action) ''type'')
        then Inl (Error ''Missing state type'')
        else if \<not> isString (member (data action) ''type'')
        then Inl (ErrorWith ''Invalid state type: '' (member (data action) ''type''))
        else if isUndefined (member (data action) ''percentage'') \<or>
                isNull (member (data action) ''percentage'')
        then Inl (Error ''Missing state percentage'')
        else if \<not> isNumber (member (data action) ''percentage'')
        then Inl (ErrorWith ''Invalid state percentage: '' (member (data action) ''percentage''))
        else if \<not> truthy (member (data action) ''eta'') \<and>
                member (data action) ''eta'' \<noteq> JNum (Fin 0)
        then Inl (Error ''Missing state eta'')
        else if \<not> isNumber (member (data action) ''eta'')
        then Inl (ErrorWith ''Invalid state eta: '' (member (data action) ''eta''))
        else if isUndefined (member (data action) ''speed'') \<or>
                isNull (member (data action) ''speed'')
        then Inl (Error ''Missing state speed'')
        else Inr (State (st\<lparr>flashState := data action\<rparr>)))

     else if type action = ''RESET_FLASH_STATE'' then
       update_state (\<lambda>s. s\<lparr>flashState := flashState DEFAULT_STATE,
                            flashResults := flashResults DEFAULT_STATE\<rparr>) state

     else if type action = ''SET_FLASHING_FLAG'' then
       update_state (\<lambda>s. s\<lparr>isFlashing := True,
                            flashResults := flashResults DEFAULT_STATE\<rparr>) state

     else if type action = ''UNSET_FLASHING_FLAG'' then
       (if \<not> truthy (data action) then Inl (Error ''Missing results'')
        else
          (let results = defaults_cancelled (data action);
               cancelled = cancelled_of results;
               sourceChecksum = member results ''sourceChecksum'';
               errorCode = member results ''errorCode''
           in
           if \<not> isBoolean cancelled
           then Inl (ErrorWith ''Invalid results cancelled: '' cancelled)
           else if truthy cancelled \<and> truthy sourceChecksum
           then Inl (Error
             ''The sourceChecksum value can't exist if the flashing was cancelled'')
           else if truthy sourceChecksum \<and> \<not> isString sourceChecksum
           then Inl (ErrorWith ''Invalid results sourceChecksum: '' sourceChecksum)
           else if truthy errorCode \<and> \<not> isString errorCode \<and> \<not> isNumber errorCode
           then Inl (ErrorWith ''Invalid results errorCode: '' errorCode)
           else update_state (\<lambda>s. s\<lparr>isFlashing := False,
                                    flashResults := results,
                                    flashState := flashState DEFAULT_STATE\<rparr>) state))

     else if type action = ''SELECT_DRIVE'' then
       (if \<not> truthy (data action) then Inl (Error ''Missing drive'')
        else if \<not> isString (data action)
        then Inl (ErrorWith ''Invalid drive: '' (data action))
        else case as_map state of Inl e \<Rightarrow> Inl e | Inr st \<Rightarrow>
          (case find_drive (data action) (availableDrives st) of
             None \<Rightarrow> Inl (ErrorWith ''The drive is not available: '' (data action))
           | Some selectedDrive \<Rightarrow>
               if truthy (get selectedDrive ''protected'')
               then Inl (Error ''The drive is write-protected'')
               else (case getIn_toJS (selection_os st) of Inl e \<Rightarrow> Inl e | Inr os \<Rightarrow>
                 (let selected = (\<lambda>s. s\<lparr>selection_drive :=
                                     (case data action of JStr d \<Rightarrow> Some d | v \<Rightarrow> None)\<rparr>)
                  in
                  if isEmpty os then
                    (if is_set (selection_image st) then
                       (case getIn_toJS (selection_image st) of
                          Inl e \<Rightarrow> Inl e
                        | Inr img \<Rightarrow>
                            if \<not> isDriveLargeEnough c (JObj selectedDrive) img
                            then Inl (Error ''The drive is not large enough'')
                            else update_state selected state)
                     else update_state selected state)
                  else
                    (let img = get selectedDrive ''recommendedImage'' in
                     if truthy img then
                       attempted
                         (storeReducer c state
                            \<lparr>type = ''SELECT_IMAGE'',
                             data = JObj [
                               (''path'', member img ''url''),
                               (''size'', member img ''recommendedDriveSize''),
                               (''logo'', member os ''logo''),
                               (''version'', member os ''version''),
                               (''downloadChecksum'', member img ''checksum''),
                               (''downloadChecksumType'',
                                  js_or (member img ''checksumType'') (JStr ''md5''))]\<rparr>)
                         (update_state selected)
                     else update_state selected state)))))

     else if type action = ''SELECT_IMAGE'' then
       (if nullish (data action) then cannot_read ''path''
        else if \<not> truthy (member (data action) ''path'')
        then Inl (Error ''Missing image path'')
        else if \<not> isString (member (data action) ''path'')
        then Inl (ErrorWith ''Invalid image path: '' (member (data action) ''path''))
        else if \<not> truthy (member (data action) ''size'')
        then Inl (Error ''Missing image size'')
        else if \<not> isNumber (member (data action) ''size'')
        then Inl (ErrorWith ''Invalid image size: '' (member (data action) ''size''))
        else if truthy (member (data action) ''url'') \<and>
                \<not> isString (member (data action) ''url'')
        then Inl (ErrorWith ''Invalid image url: '' (member (data action) ''url''))
        else if truthy (member (data action) ''name'') \<and>
                \<not> isString (member (data action) ''name'')
        then Inl (ErrorWith ''Invalid image name: '' (member (data action) ''name''))
        else if truthy (member (data action) ''logo'') \<and>
                \<not> isString (member (data action) ''logo'')
        then Inl (ErrorWith ''Invalid image logo: '' (member (data action) ''logo''))
        else if truthy (member (data action) ''version'') \<and>
                \<not> isString (member (data action) ''version'')
        then Inl (ErrorWith ''Invalid image version: '' (member (data action) ''version''))
        else if truthy (member (data action) ''downloadChecksum'') \<and>
                \<not> isString (member (data action) ''downloadChecksum'')
        then Inl (ErrorWith ''Invalid image download checksum: ''
                    (member (data action) ''downloadChecksum''))
        else if truthy (member (data action) ''downloadChecksumType'') \<and>
                \<not> isString (member (data action) ''downloadChecksumType'')
        then Inl (ErrorWith ''Invalid image download checksum: ''
                    (member (data action) ''downloadChecksumType''))
        else case as_map state of Inl e \<Rightarrow> Inl e | Inr st \<Rightarrow>
          (let selectedDevice = device_value (selection_drive st);
               selectedDrive = find_drive selectedDevice (availableDrives st)
           in
           if \<not> is_set (selection_os st) then
             attempted
               (case selectedDrive of
                  None \<Rightarrow> Inr state
                | Some drive \<Rightarrow>
                    if \<not> (isDriveValid c (JObj drive) (data action) JUndefined \<and>
                           isDriveSizeRecommended c (JObj drive) (data action))
                    then storeReducer c state
                           \<lparr>type = ''REMOVE_DRIVE'', data = JUndefined\<rparr>
                    else Inr state)
               (update_state (\<lambda>s. s\<lparr>selection_image := Some (data action)\<rparr>))
           else Inr (State (st\<lparr>selection_image := Some (data action)\<rparr>))))

     else if type action = ''REMOVE_OS'' then
       attempted
         (case as_map state of Inl e \<Rightarrow> Inl e | Inr st \<Rightarrow>
            if is_set (selection_image st)
            then storeReducer c state \<lparr>type = ''REMOVE_IMAGE'', data = JUndefined\<rparr>
            else Inr state)
         (update_state (\<lambda>s. s\<lparr>selection_os := None\<rparr>))

     else if type action = ''REMOVE_DRIVE'' then
       attempted
         (case as_map state of Inl e \<Rightarrow> Inl e | Inr st \<Rightarrow>
            if is_set (selection_os st)
            then storeReducer c state \<lparr>type = ''REMOVE_IMAGE'', data = JUndefined\<rparr>
            else Inr state)
         (update_state (\<lambda>s. s\<lparr>selection_drive := None\<rparr>))

     else if type action = ''REMOVE_IMAGE'' then
       update_state (\<lambda>s. s\<lparr>selection_image := None\<rparr>) state

     else if type action = ''SET_SETTING'' then
       (if nullish (data action) then cannot_read ''key''
        else
          (let key = member (data action) ''key'';
               val = member (data action) ''value''
           in
           if \<not> truthy key then Inl (Error ''Missing setting key'')
           else case key of
             JStr k \<Rightarrow>
               if \<not> has (settings DEFAULT_STATE) k
               then Inl (ErrorWith ''Unsupported setting: '' key)
               else if isObject val
               then Inl (ErrorWith ''Invalid setting value: '' val)
               else update_state (\<lambda>s. s\<lparr>settings := AList.update k val (settings s)\<rparr>) state
           | v \<Rightarrow> Inl (ErrorWith ''Invalid setting key: '' key)))

     else Inr state)"
  by pat_completeness auto

termination
  by (relation "measure (\<lambda>(c, state, action). cascade_rank (type action))")
     (simp_all add: cascade_rank_def)

declare storeReducer.simps [simp del]

section \<open>The store\<close>

text \<open>
  Modelled from the spec: the store itself is built by \<^verbatim>\<open>redux.createStore\<close>, which is not
  in the file. A dispatch hands the current snapshot to the reducer; "the new snapshot is
  only committed if the reducer returns normally" (section 7), otherwise the error goes to
  the caller and the previous snapshot stays current.
\<close>

definition dispatch :: "env \<Rightarrow> jsstate \<Rightarrow> action \<Rightarrow> jsstate \<times> error option" where
  "dispatch c currentState action =
     (case storeReducer c currentState action of
        Inl e \<Rightarrow> (currentState, Some e)
      | Inr nextState \<Rightarrow> (nextState, None))"

text \<open>A run of dispatches, each starting from the snapshot the previous one left.\<close>

fun dispatch_all :: "env \<Rightarrow> jsstate \<Rightarrow> action list \<Rightarrow> jsstate" where
  "dispatch_all c s [] = s"
| "dispatch_all c s (a # as) = dispatch_all c (fst (dispatch c s a)) as"



definition drive_ok :: "appstate \<Rightarrow> bool" where
  "drive_ok st =
     (\<forall>d. selection_drive st = Some d \<longrightarrow>
          d \<noteq> [] \<and> find_drive (JStr d) (availableDrives st) \<noteq> None)"

section \<open>A concrete policy and concrete payloads\<close>

text \<open>
  A drive-constraints policy to run the reducer on concrete inputs: sizes are compared as
  numbers (a missing size counts as 0), a drive is valid when it is not write-protected and
  large enough, and a system drive is one flagged \<^verbatim>\<open>system\<close>. \<open>num_gt\<close> is \<^verbatim>\<open>a > b\<close>
  on finite numbers, the only values the examples compare.
\<close>

fun size_of :: "jsval \<Rightarrow> rat" where
  "size_of (JNum (Fin r)) = r"
| "size_of v = 0"

fun num_gt :: "jsval \<Rightarrow> jsval \<Rightarrow> bool" where
  "num_gt (JNum (Fin a)) (JNum (Fin b)) = (b < a)"
| "num_gt a b = False"

definition test_constraints :: env where
  "test_constraints = \<lparr>
     isDriveValid = (\<lambda>drive img osSelected.
       \<not> truthy (member drive ''protected'') \<and>
       size_of (member img ''size'') \<le> size_of (member drive ''size'')),
     isDriveSizeRecommended = (\<lambda>drive img.
       size_of (member img ''recommendedDriveSize'') \<le> size_of (member drive ''size'')),
     isSystemDrive = (\<lambda>drive. truthy (member drive ''system'')),
     isDriveLargeEnough = (\<lambda>drive img.
       size_of (member img ''size'') \<le> size_of (member drive ''size'')),
     baseGt = num_gt\<rparr>"

definition flashing :: appstate where
  "flashing = DEFAULT_STATE\<lparr>isFlashing := True\<rparr>"

text \<open>
  Two 16 GB cards, a 32 GB card, and the first card with its write-protection switch on.
\<close>

definition sda :: obj where
  "sda = [(''device'', JStr ''/dev/sda''), (''size'', JNum (Fin 16000000000)),
          (''protected'', JBool False)]"

definition sdb :: obj where
  "sdb = [(''device'', JStr ''/dev/sdb''), (''size'', JNum (Fin 16000000000)),
          (''protected'', JBool False)]"


definition sda_locked :: obj where
  "sda_locked = [(''device'', JStr ''/dev/sda''), (''size'', JNum (Fin 16000000000)),
                 (''protected'', JBool True)]"

text \<open>
  A catalogue entry with one image of 2 GB that recommends an 8 GB drive, the same entry
  with its version given as the number 9, and a local image file.
\<close>

definition debian_image :: jsval where
  "debian_image = JObj [
     (''url'', JStr ''https://example.org/debian.img.xz''),
     (''size'', JNum (Fin 2000000000)),
     (''recommendedDriveSize'', JNum (Fin 8000000000)),
     (''checksum'', JStr ''0cc175b9c0f1b6a831c399e269772661'')]"

definition debian :: jsval where
  "debian = JObj [
     (''name'', JStr ''Debian''),
     (''logo'', JStr ''debian.svg''),
     (''version'', JStr ''9''),
     (''images'', JArr [debian_image])]"

definition debian_numbered :: jsval where
  "debian_numbered = JObj [
     (''name'', JStr ''Debian''),
     (''logo'', JStr ''debian.svg''),
     (''version'', JNum (Fin 9)),
     (''images'', JArr [debian_image])]"



definition locked_sda_selected :: appstate where
  "locked_sda_selected = DEFAULT_STATE\<lparr>
     availableDrives := [sda_locked, sdb],
     selection_drive := Some ''/dev/sda''\<rparr>"

definition debian_offered :: appstate where
  "debian_offered = DEFAULT_STATE\<lparr>
     availableDrives := [sda @ [(''recommendedImage'', debian_image)],
                         sdb @ [(''recommendedImage'', debian_image)]],
     selection_os := Some debian\<rparr>"



definition debian_numbered_offered :: appstate where
  "debian_numbered_offered = DEFAULT_STATE\<lparr>
     availableDrives := [sda @ [(''recommendedImage'', debian_image)],
                         sdb @ [(''recommendedImage'', debian_image)]],
     selection_os := Some debian_numbered\<rparr>"

section \<open>Basic facts\<close>

text \<open>The equation of the reducer, specialised to each kind of action.\<close>

lemmas reduce_SELECT_OS =
  storeReducer.simps [of c s "\<lparr>type = ''SELECT_OS'', data = v\<rparr>", simplified] for c s v

lemmas reduce_SET_AVAILABLE_DRIVES =
  storeReducer.simps [of c s "\<lparr>type = ''SET_AVAILABLE_DRIVES'', data = v\<rparr>", simplified] for c s v

lemmas reduce_SET_FLASH_STATE =
  storeReducer.simps [of c s "\<lparr>type = ''SET_FLASH_STATE'', data = v\<rparr>", simplified] for c s v

lemmas reduce_RESET_FLASH_STATE =
  storeReducer.simps [of c s "\<lparr>type = ''RESET_FLASH_STATE'', data = v\<rparr>", simplified] for c s v

lemmas reduce_SET_FLASHING_FLAG =
  storeReducer.simps [of c s "\<lparr>type = ''SET_FLASHING_FLAG'', data = v\<rparr>", simplified] for c s v

lemmas reduce_UNSET_FLASHING_FLAG =
  storeReducer.simps [of c s "\<lparr>type = ''UNSET_FLASHING_FLAG'', data = v\<rparr>", simplified] for c s v

lemmas reduce_SELECT_DRIVE =
  storeReducer.simps [of c s "\<lparr>type = ''SELECT_DRIVE'', data = v\<rparr>", simplified] for c s v

lemmas reduce_SELECT_IMAGE =
  storeReducer.simps [of c s "\<lparr>type = ''SELECT_IMAGE'', data = v\<rparr>", simplified] for c s v

lemmas reduce_REMOVE_OS =
  storeReducer.simps [of c s "\<lparr>type = ''REMOVE_OS'', data = v\<rparr>", simplified] for c s v

lemmas reduce_REMOVE_DRIVE =
  storeReducer.simps [of c s "\<lparr>type = ''REMOVE_DRIVE'', data = v\<rparr>", simplified] for c s v

lemmas reduce_REMOVE_IMAGE =
  storeReducer.simps [of c s "\<lparr>type = ''REMOVE_IMAGE'', data = v\<rparr>", simplified] for c s v

lemmas reduce_SET_SETTING =
  storeReducer.simps [of c s "\<lparr>type = ''SET_SETTING'', data = v\<rparr>", simplified] for c s v

lemma get_update_same: "get (AList.update k v kvs) k = v"
  by (simp add: get_def update_conv')

lemma member_not_nullish: "member d k \<noteq> JUndefined \<Longrightarrow> \<not> nullish d"
  by (cases d) simp_all

lemma has_nonempty: "has (settings DEFAULT_STATE) k \<Longrightarrow> k \<noteq> []"
  by (auto simp add: has_def DEFAULT_STATE_def)

text \<open>\<^verbatim>\<open>state = state || DEFAULT_STATE\<close>\<close>

lemma undefined_state_is_default:
  "storeReducer c Undefined a = storeReducer c (State DEFAULT_STATE) a"
  by (simp add: storeReducer.simps [of c Undefined a] storeReducer.simps [of c "State DEFAULT_STATE" a])

lemmas model_defs =
  test_constraints_def DEFAULT_STATE_def dispatch_def get_def find_drive_def
  getRecommendedImage_def maxBy_def baseExtremum.simps cannot_read_def js_or_def
  update_state_def attempted_def has_def

section \<open>Images that are not an array\<close>

text \<open>
  \<^verbatim>\<open>_.maxBy\<close> walks whatever has a truthy \<^verbatim>\<open>length\<close>. An OS whose \<^verbatim>\<open>images\<close> is the
  object \<^verbatim>\<open>{"0": image, "length": 1}\<close> recommends that image, as the array of the one
  image does.
\<close>

lemma recommended_image_of_array_like:
  "getRecommendedImage test_constraints (JObj sda)
     (JObj [(''images'', JObj [(''0'', debian_image), (''length'', JNum (Fin 1))])]) =
     Inr debian_image \<and>
   getRecommendedImage test_constraints (JObj sda) debian = Inr debian_image"
  by (simp add: getRecommendedImage_def maxBy_def baseExtremum.simps decimal.simps
        test_constraints_def sda_def debian_def debian_image_def get_def)

text \<open>
  A loop whose test never fails and whose iteratee never throws does not return, from
  whatever index it is looked at.
\<close>

lemma baseExtremum_never_returns:
  assumes test: "\<And>i. index_below c i (length_of array)"
    and iteratee: "\<And>v. \<exists>current. iteratee v = Inr current"
  shows "baseExtremum c iteratee array index acc = Inl NeverReturns"
proof (induction "9007199254740992 - index" arbitrary: index acc rule: less_induct)
  case less
  obtain current where current: "iteratee (element_at array index) = Inr current"
    using iteratee by blast
  show ?case
  proof (cases "9007199254740992 \<le> index")
    case True
    with test current show ?thesis
      by (subst baseExtremum.simps) simp
  next
    case False
    then have "9007199254740992 - Suc index < 9007199254740992 - index"
      by simp
    from less [OF this] False test current show ?thesis
      by (subst baseExtremum.simps) simp
  qed
qed

lemma maxBy_of_infinite_length:
  "maxBy c (JObj [(''length'', JNum PosInfinity)]) (\<lambda>v. Inr JUndefined) = Inl NeverReturns"
  by (simp add: maxBy_def get_def baseExtremum_never_returns)

section \<open>What each kind of action does to a state\<close>

lemma get_update_other: "k' \<noteq> k \<Longrightarrow> get (AList.update k v kvs) k' = get kvs k'"
  by (simp add: get_def update_conv')

lemma update_state_State [simp]: "update_state f (State st) = Inr (State (f st))"
  by (simp add: update_state_def)

lemma attempted_Inr [simp]: "attempted (Inr s) continue = continue s"
  by (simp add: attempted_def)

lemma attempted_update_state_Inr:
  "attempted x (update_state f) = Inr r \<longleftrightarrow> (\<exists>s. x = Inr (State s) \<and> r = State (f s))"
proof (cases x)
  case (Inl e)
  then show ?thesis by (simp add: attempted_def update_state_def)
next
  case (Inr s)
  then show ?thesis by (cases s) (auto simp add: update_state_def)
qed

lemma remove_image_state:
  "storeReducer c (State st) \<lparr>type = ''REMOVE_IMAGE'', data = v\<rparr> =
     Inr (State (st\<lparr>selection_image := None\<rparr>))"
  by (simp add: reduce_REMOVE_IMAGE)

lemma remove_drive_state:
  "storeReducer c (State st) \<lparr>type = ''REMOVE_DRIVE'', data = v\<rparr> =
     Inr (State (st\<lparr>selection_image := (if is_set (selection_os st) then None else selection_image st),
                     selection_drive := None\<rparr>))"
  by (simp add: reduce_REMOVE_DRIVE remove_image_state)

lemma remove_os_state:
  "storeReducer c (State st) \<lparr>type = ''REMOVE_OS'', data = v\<rparr> =
     Inr (State (st\<lparr>selection_image := (if is_set (selection_image st) then None else selection_image st),
                     selection_os := None\<rparr>))"
  by (simp add: reduce_REMOVE_OS remove_image_state)

lemma select_image_effect:
  assumes "storeReducer c (State st) \<lparr>type = ''SELECT_IMAGE'', data = v\<rparr> = Inr r"
  shows "\<exists>dr. r = State (st\<lparr>selection_image := Some v, selection_drive := dr\<rparr>) \<and>
              (dr = None \<or> dr = selection_drive st)"
proof (cases "find_drive (device_value (selection_drive st)) (availableDrives st)")
  case None
  with assms have "r = State (st\<lparr>selection_image := Some v\<rparr>)"
    by (simp add: reduce_SELECT_IMAGE Let_def cannot_read_def split: if_splits)
  then show ?thesis by (intro exI [of _ "selection_drive st"]) simp
next
  case (Some drive)
  with assms have "r = State (st\<lparr>selection_image := Some v\<rparr>) \<or>
      r = State (st\<lparr>selection_image := Some v, selection_drive := None\<rparr>)"
    by (simp add: reduce_SELECT_IMAGE Let_def cannot_read_def remove_drive_state split: if_splits) auto
  then show ?thesis
  proof
    assume "r = State (st\<lparr>selection_image := Some v\<rparr>)"
    then show ?thesis by (intro exI [of _ "selection_drive st"]) simp
  next
    assume "r = State (st\<lparr>selection_image := Some v, selection_drive := None\<rparr>)"
    then show ?thesis by (intro exI [of _ None]) simp
  qed
qed

text \<open>\<^verbatim>\<open>SELECT_IMAGE\<close> walks nothing: on a state it returns or throws.\<close>

lemma select_image_returns:
  "storeReducer c (State st) \<lparr>type = ''SELECT_IMAGE'', data = v\<rparr> \<noteq> Inl NeverReturns"
  by (simp add: reduce_SELECT_IMAGE Let_def cannot_read_def remove_drive_state
      split: option.splits)

lemma attempted_returns: "x \<noteq> Inl NeverReturns \<Longrightarrow> attempted x continue = continue (attempt x)"
  by (simp add: attempted_def)

lemma select_drive_effect:
  assumes "storeReducer c (State st) \<lparr>type = ''SELECT_DRIVE'', data = v\<rparr> = Inr r"
  shows "\<exists>d img. v = JStr d \<and> d \<noteq> [] \<and> find_drive (JStr d) (availableDrives st) \<noteq> None \<and>
                r = State (st\<lparr>selection_image := img, selection_drive := Some d\<rparr>)"
proof -
  from assms have "truthy v"
    by (rule contrapos_pp) (simp add: reduce_SELECT_DRIVE)
  with assms have "isString v"
    by (cases "isString v") (simp_all add: reduce_SELECT_DRIVE)
  with \<open>truthy v\<close> obtain d where v: "v = JStr d" "d \<noteq> []"
    by (cases v) simp_all
  from assms obtain drive where found: "find_drive (JStr d) (availableDrives st) = Some drive"
    unfolding v by (cases "find_drive (JStr d) (availableDrives st)") (simp_all add: reduce_SELECT_DRIVE v)
  from assms have unprotected: "\<not> truthy (get drive ''protected'')"
    unfolding v by (rule contrapos_pn) (simp add: reduce_SELECT_DRIVE v found)
  from assms obtain os where os: "getIn_toJS (selection_os st) = Inr os"
    unfolding v by (cases "getIn_toJS (selection_os st)") (simp_all add: reduce_SELECT_DRIVE v found unprotected)
  from assms have "\<exists>img. r = State (st\<lparr>selection_image := img, selection_drive := Some d\<rparr>)"
    unfolding v
    apply (simp add: reduce_SELECT_DRIVE Let_def v found unprotected os attempted_update_state_Inr split: if_splits sum.splits)
    subgoal by (rule exI [of _ "selection_image st"]) auto
    subgoal by (rule exI [of _ "selection_image st"]) auto
    subgoal by (auto dest!: select_image_effect)
    subgoal by (rule exI [of _ "selection_image st"]) auto
    done
  with v found show ?thesis by simp
qed






lemma set_available_drives_effect:
  assumes "storeReducer c (State st) \<lparr>type = ''SET_AVAILABLE_DRIVES'', data = v\<rparr> = Inr r"
  shows "\<exists>drives img dr.
           r = State (st\<lparr>availableDrives := drives, selection_image := img,
                         selection_drive := dr\<rparr>) \<and>
           (selection_drive st \<noteq> Some [] \<longrightarrow>
              (\<forall>d. dr = Some d \<longrightarrow> d \<noteq> [] \<and> find_drive (JStr d) drives \<noteq> None))"
proof -
  note unfold = reduce_SET_AVAILABLE_DRIVES [of c "State st" v]
  from assms have "truthy v"
    by (rule contrapos_pp) (simp add: unfold)
  from assms \<open>truthy v\<close> obtain incoming where incoming: "array_of_plain_objects v = Some incoming"
    by (cases "array_of_plain_objects v") (simp_all add: unfold)
  from assms obtain os where os: "getIn_toJS (selection_os st) = Inr os"
    by (cases "getIn_toJS (selection_os st)") (simp_all add: unfold \<open>truthy v\<close> incoming)
  from assms obtain img where img: "getIn_toJS (selection_image st) = Inr img"
    by (cases "getIn_toJS (selection_image st)") (simp_all add: unfold \<open>truthy v\<close> incoming os)
  from assms obtain drives where drives: "annotate c os incoming = Inr drives"
    by (cases "annotate c os incoming") (simp_all add: unfold \<open>truthy v\<close> incoming os img)
  note known = \<open>truthy v\<close> incoming os img drives
  show ?thesis
  proof (cases "auto_selected c os img drives")
    case (Some drive)
    with assms have
      "storeReducer c (State (st\<lparr>availableDrives := drives\<rparr>))
         \<lparr>type = ''SELECT_DRIVE'', data = get drive ''device''\<rparr> = Inr r"
      by (simp add: unfold known Let_def)
    from select_drive_effect [OF this] obtain d img' where
      d: "d \<noteq> []" "find_drive (JStr d) drives \<noteq> None" and
      r: "r = State (st\<lparr>availableDrives := drives, selection_image := img',
                        selection_drive := Some d\<rparr>)"
      by auto
    from d have
      "selection_drive st \<noteq> Some [] \<longrightarrow>
         (\<forall>d'. Some d = Some d' \<longrightarrow> d' \<noteq> [] \<and> find_drive (JStr d') drives \<noteq> None)"
      by simp
    with r show ?thesis by blast
  next
    case None
    show ?thesis
    proof (cases "truthy (device_value (selection_drive st)) \<and>
        find_drive (device_value (selection_drive st)) drives = None")
      case True
      with assms None have
        "r = State (st\<lparr>availableDrives := drives,
              selection_image := (if is_set (selection_os st) then None else selection_image st),
              selection_drive := None\<rparr>)"
        by (simp add: unfold known Let_def remove_drive_state) auto
      then show ?thesis by blast
    next
      case False
      with assms None have r: "r = State (st\<lparr>availableDrives := drives\<rparr>)"
        by (auto simp add: unfold known Let_def)
      have "r = State (st\<lparr>availableDrives := drives, selection_image := selection_image st,
                         selection_drive := selection_drive st\<rparr>)"
        by (simp add: r)
      moreover from False have
        "selection_drive st \<noteq> Some [] \<longrightarrow>
           (\<forall>d. selection_drive st = Some d \<longrightarrow> d \<noteq> [] \<and> find_drive (JStr d) drives \<noteq> None)"
        by auto
      ultimately show ?thesis by blast
    qed
  qed
qed


lemma attempted_return_State: "attempted x Inr = Inr (State s) \<longleftrightarrow> x = Inr (State s)"
  by (cases x) (simp_all add: attempted_def)

lemma select_os_effect:
  assumes "storeReducer c (State st) \<lparr>type = ''SELECT_OS'', data = v\<rparr> = Inr (State s')"
  shows "\<exists>drives img dr.
           s' = st\<lparr>selection_os := Some v, availableDrives := drives, selection_image := img,
                    selection_drive := dr\<rparr> \<and>
           (selection_drive st \<noteq> Some [] \<longrightarrow>
              (\<forall>d. dr = Some d \<longrightarrow> d \<noteq> [] \<and> find_drive (JStr d) drives \<noteq> None))"
proof -
  note unfold = reduce_SELECT_OS [of c "State st" v]
  let ?refresh = "storeReducer c (State (st\<lparr>selection_os := Some v\<rparr>))
    \<lparr>type = ''SET_AVAILABLE_DRIVES'', data = JArr (map JObj (availableDrives st))\<rparr>"
  from assms have "truthy v"
    by (rule contrapos_pp) (simp add: unfold)
  from assms obtain newState where refresh: "?refresh = Inr newState"
    by (cases ?refresh) (simp_all add: unfold \<open>truthy v\<close> Let_def)
  from set_available_drives_effect [OF refresh] obtain drives img dr where
    newState: "newState = State (st\<lparr>selection_os := Some v, availableDrives := drives,
                 selection_image := img, selection_drive := dr\<rparr>)" and
    dr: "selection_drive st \<noteq> Some [] \<longrightarrow>
           (\<forall>d. dr = Some d \<longrightarrow> d \<noteq> [] \<and> find_drive (JStr d) drives \<noteq> None)"
    by auto
  let ?s1 = "st\<lparr>selection_os := Some v, availableDrives := drives,
                 selection_image := img, selection_drive := dr\<rparr>"
  show ?thesis
  proof (cases "find_drive (device_value (selection_drive st)) (availableDrives st)")
    case None
    with assms have "s' = ?s1"
      by (simp add: unfold \<open>truthy v\<close> Let_def refresh newState)
    with dr show ?thesis by blast
  next
    case (Some drive)
    show ?thesis
    proof (cases "getRecommendedImage c (JObj drive) v")
      case (Inl e)
      with assms Some show ?thesis
        by (simp add: unfold \<open>truthy v\<close> Let_def refresh newState attempted_return_State)
    next
      case (Inr recommended)
      show ?thesis
      proof (cases "truthy recommended")
        case False
        with assms Some Inr have "s' = ?s1\<lparr>selection_image :=
            (if is_set (selection_os ?s1) then None else selection_image ?s1),
            selection_drive := None\<rparr>"
          by (simp add: unfold \<open>truthy v\<close> Let_def refresh newState attempted_return_State remove_drive_state)
        then have "s' = st\<lparr>selection_os := Some v, availableDrives := drives,
            selection_image := (if is_set (selection_os ?s1) then None else selection_image ?s1),
            selection_drive := None\<rparr>"
          by simp
        then show ?thesis by blast
      next
        case True
        with assms Some Inr have
          "storeReducer c (State ?s1) \<lparr>type = ''SELECT_DRIVE'', data = get drive ''device''\<rparr> =
             Inr (State s')"
          by (simp add: unfold \<open>truthy v\<close> Let_def refresh newState attempted_return_State)
        from select_drive_effect [OF this] obtain d img' where
          d: "d \<noteq> []" "find_drive (JStr d) drives \<noteq> None" and
          s': "s' = st\<lparr>selection_os := Some v, availableDrives := drives,
                       selection_image := img', selection_drive := Some d\<rparr>"
          by auto
        from d have
          "selection_drive st \<noteq> Some [] \<longrightarrow>
             (\<forall>d'. Some d = Some d' \<longrightarrow> d' \<noteq> [] \<and> find_drive (JStr d') drives \<noteq> None)"
          by simp
        with s' show ?thesis by blast
      qed
    qed
  qed
qed


lemma drive_ok_not_empty: "drive_ok st \<Longrightarrow> selection_drive st \<noteq> Some []"
  by (auto simp add: drive_ok_def)

lemma reducer_step:
  assumes step: "storeReducer c (State st) a = Inr (State s')"
  shows "(type a \<noteq> ''SET_SETTING'' \<longrightarrow> settings s' = settings st) \<and>
         (drive_ok st \<longrightarrow> drive_ok s')"
proof -
  from step have lit: "storeReducer c (State st) \<lparr>type = type a, data = data a\<rparr> = Inr (State s')"
    by (cases a) simp
  consider
      (select_os) "type a = ''SELECT_OS''"
    | (set_available_drives) "type a = ''SET_AVAILABLE_DRIVES''"
    | (set_flash_state) "type a = ''SET_FLASH_STATE''"
    | (reset_flash_state) "type a = ''RESET_FLASH_STATE''"
    | (set_flashing_flag) "type a = ''SET_FLASHING_FLAG''"
    | (unset_flashing_flag) "type a = ''UNSET_FLASHING_FLAG''"
    | (select_drive) "type a = ''SELECT_DRIVE''"
    | (select_image) "type a = ''SELECT_IMAGE''"
    | (remove_os) "type a = ''REMOVE_OS''"
    | (remove_drive) "type a = ''REMOVE_DRIVE''"
    | (remove_image) "type a = ''REMOVE_IMAGE''"
    | (set_setting) "type a = ''SET_SETTING''"
    | (unknown) "type a \<notin> set ACTIONS"
    by (auto simp add: ACTIONS_def)
  then show ?thesis
  proof cases
    case select_os
    with lit have "storeReducer c (State st) \<lparr>type = ''SELECT_OS'', data = data a\<rparr> = Inr (State s')"
      by simp
    from select_os_effect [OF this] show ?thesis
      by (auto simp add: drive_ok_def dest: drive_ok_not_empty split: option.splits)
  next
    case set_available_drives
    with lit have "storeReducer c (State st) \<lparr>type = ''SET_AVAILABLE_DRIVES'', data = data a\<rparr> = Inr (State s')"
      by simp
    from set_available_drives_effect [OF this] show ?thesis
      by (auto simp add: drive_ok_def split: option.splits)
  next
    case set_flash_state
    with lit have "\<exists>fs. s' = st\<lparr>flashState := fs\<rparr>"
      by (auto simp add: reduce_SET_FLASH_STATE cannot_read_def split: if_splits)
    then show ?thesis by (auto simp add: drive_ok_def)
  next
    case reset_flash_state
    with lit show ?thesis
      by (auto simp add: reduce_RESET_FLASH_STATE drive_ok_def)
  next
    case set_flashing_flag
    with lit show ?thesis
      by (auto simp add: reduce_SET_FLASHING_FLAG drive_ok_def)
  next
    case unset_flashing_flag
    with lit have "\<exists>fr fs. s' = st\<lparr>isFlashing := False, flashResults := fr, flashState := fs\<rparr>"
      by (auto simp add: reduce_UNSET_FLASHING_FLAG Let_def split: if_splits)
    then show ?thesis by (auto simp add: drive_ok_def)
  next
    case select_drive
    with lit have "storeReducer c (State st) \<lparr>type = ''SELECT_DRIVE'', data = data a\<rparr> = Inr (State s')"
      by simp
    from select_drive_effect [OF this] show ?thesis
      by (auto simp add: drive_ok_def)
  next
    case select_image
    with lit have "storeReducer c (State st) \<lparr>type = ''SELECT_IMAGE'', data = data a\<rparr> = Inr (State s')"
      by simp
    from select_image_effect [OF this] show ?thesis
      by (auto simp add: drive_ok_def)
  next
    case remove_os
    with lit show ?thesis
      by (auto simp add: remove_os_state drive_ok_def)
  next
    case remove_drive
    with lit show ?thesis
      by (auto simp add: remove_drive_state drive_ok_def)
  next
    case remove_image
    with lit show ?thesis
      by (auto simp add: remove_image_state drive_ok_def)
  next
    case set_setting
    with lit have "\<exists>stg. s' = st\<lparr>settings := stg\<rparr>"
      by (auto simp add: reduce_SET_SETTING Let_def cannot_read_def split: if_splits jsval.splits)
    with set_setting show ?thesis by (auto simp add: drive_ok_def)
  next
    case unknown
    then have "storeReducer c (State st) a = Inr (State st)"
      by (simp add: storeReducer.simps [of c "State st" a] ACTIONS_def)
    with step show ?thesis by simp
  qed
qed

section \<open>The selected drive\<close>








section \<open>Cascades and \<^verbatim>\<open>_.attempt\<close>\<close>

text \<open>
  C2 does not hold of the code. \<^verbatim>\<open>SELECT_OS\<close> returns what \<^verbatim>\<open>_.attempt\<close> returns, and
  for a callback that throws that is the \<^verbatim>\<open>Error\<close> object, not the state with the new
  \<^verbatim>\<open>selection.os\<close>. Here \<^verbatim>\<open>/dev/sda\<close> was selected and then reported write-protected
  by a later drive scan; selecting an OS that has an image for it cascades to
  \<^verbatim>\<open>SELECT_DRIVE\<close>, which throws, and the reducer returns that error as the next state.
  The dispatch after it fails on the first method call on the state.
\<close>

theorem select_os_returns_error_object:
  "dispatch_all test_constraints (State DEFAULT_STATE)
     [\<lparr>type = ''SET_AVAILABLE_DRIVES'', data = JArr [JObj sda, JObj sdb]\<rparr>,
      \<lparr>type = ''SELECT_DRIVE'', data = JStr ''/dev/sda''\<rparr>,
      \<lparr>type = ''SET_AVAILABLE_DRIVES'', data = JArr [JObj sda_locked, JObj sdb]\<rparr>] =
     State locked_sda_selected \<and>
   storeReducer test_constraints (State locked_sda_selected)
     \<lparr>type = ''SELECT_OS'', data = debian\<rparr> =
     Inr (ErrorObject (Error ''The drive is write-protected'')) \<and>
   storeReducer test_constraints (ErrorObject (Error ''The drive is write-protected''))
     \<lparr>type = ''REMOVE_IMAGE'', data = JUndefined\<rparr> = Inl (TypeError ''not a function'')"
  by (simp add: storeReducer.simps model_defs locked_sda_selected_def sda_def sdb_def sda_locked_def debian_def debian_image_def Let_def)

text \<open>
  C3 does not hold of the code. In \<^verbatim>\<open>SELECT_DRIVE\<close> the result of \<^verbatim>\<open>_.attempt\<close> is
  used as a state at once (\<^verbatim>\<open>.setIn\<close>); when the cascaded \<^verbatim>\<open>SELECT_IMAGE\<close> throws, it is
  an \<^verbatim>\<open>Error\<close> object, which has no \<^verbatim>\<open>setIn\<close>, and the dispatch throws a \<^verbatim>\<open>TypeError\<close>.
  Here the selected OS gives its version as a number, which \<^verbatim>\<open>SELECT_IMAGE\<close> rejects.
\<close>

theorem select_drive_cascade_failure_throws:
  "dispatch_all test_constraints (State DEFAULT_STATE)
     [\<lparr>type = ''SELECT_OS'', data = debian_numbered\<rparr>,
      \<lparr>type = ''SET_AVAILABLE_DRIVES'', data = JArr [JObj sda, JObj sdb]\<rparr>] =
     State debian_numbered_offered \<and>
   storeReducer test_constraints (State debian_numbered_offered)
     \<lparr>type = ''SELECT_IMAGE'',
      data = JObj [
        (''path'', JStr ''https://example.org/debian.img.xz''),
        (''size'', JNum (Fin 8000000000)),
        (''logo'', JStr ''debian.svg''),
        (''version'', JNum (Fin 9)),
        (''downloadChecksum'', JStr ''0cc175b9c0f1b6a831c399e269772661''),
        (''downloadChecksumType'', JStr ''md5'')]\<rparr> =
     Inl (ErrorWith ''Invalid image version: '' (JNum (Fin 9))) \<and>
   storeReducer test_constraints (State debian_numbered_offered)
     \<lparr>type = ''SELECT_DRIVE'', data = JStr ''/dev/sda''\<rparr> =
     Inl (TypeError ''not a function'')"
  by (simp add: storeReducer.simps model_defs debian_numbered_offered_def sda_def sdb_def debian_numbered_def debian_image_def Let_def)

text \<open>
  C4, as the code has it. When \<^verbatim>\<open>SELECT_DRIVE\<close> is dispatched with an OS selected and the
  matched drive carrying a \<^verbatim>\<open>recommendedImage\<close>, the result is that of setting
  \<^verbatim>\<open>selection.drive\<close> on the attempted \<^verbatim>\<open>SELECT_IMAGE\<close> whose payload has the image's
  \<^verbatim>\<open>url\<close> as \<^verbatim>\<open>path\<close>, the image's \<^verbatim>\<open>recommendedDriveSize\<close> as \<^verbatim>\<open>size\<close>, the image's
  \<^verbatim>\<open>checksum\<close> as \<^verbatim>\<open>downloadChecksum\<close>, the image's \<^verbatim>\<open>checksumType\<close> or, when that is
  falsy, \<^verbatim>\<open>'md5'\<close> as \<^verbatim>\<open>downloadChecksumType\<close>, and the selected OS's \<^verbatim>\<open>logo\<close> and
  \<^verbatim>\<open>version\<close>. When \<^verbatim>\<open>SELECT_IMAGE\<close> accepts that payload, the state returned has it as
  \<^verbatim>\<open>selection.image\<close> and the device as \<^verbatim>\<open>selection.drive\<close>.
\<close>

theorem select_drive_cascade_payload:
  "find_drive (JStr d) (availableDrives st) = Some drive \<and> d \<noteq> [] \<and>
   \<not> truthy (get drive ''protected'') \<and>
   selection_os st = Some os \<and> isObject os \<and> \<not> isEmpty os \<and>
   get drive ''recommendedImage'' = img \<and> truthy img \<and>
   payload = JObj [
     (''path'', member img ''url''),
     (''size'', member img ''recommendedDriveSize''),
     (''logo'', member os ''logo''),
     (''version'', member os ''version''),
     (''downloadChecksum'', member img ''checksum''),
     (''downloadChecksumType'',
        if truthy (member img ''checksumType'') then member img ''checksumType''
        else JStr ''md5'')] \<longrightarrow>
   storeReducer c (State st) \<lparr>type = ''SELECT_DRIVE'', data = JStr d\<rparr> =
     update_state (\<lambda>s. s\<lparr>selection_drive := Some d\<rparr>)
       (attempt (storeReducer c (State st) \<lparr>type = ''SELECT_IMAGE'', data = payload\<rparr>)) \<and>
   (\<forall>r. storeReducer c (State st) \<lparr>type = ''SELECT_IMAGE'', data = payload\<rparr> = Inr r \<longrightarrow>
      storeReducer c (State st) \<lparr>type = ''SELECT_DRIVE'', data = JStr d\<rparr> =
        Inr (State (st\<lparr>selection_image := Some payload, selection_drive := Some d\<rparr>)))"
proof (intro impI, elim conjE)
  assume found: "find_drive (JStr d) (availableDrives st) = Some drive"
    and d: "d \<noteq> []"
    and unprotected: "\<not> truthy (get drive ''protected'')"
    and os: "selection_os st = Some os" "isObject os" "\<not> isEmpty os"
    and img: "get drive ''recommendedImage'' = img" "truthy img"
    and payload: "payload = JObj [
     (''path'', member img ''url''),
     (''size'', member img ''recommendedDriveSize''),
     (''logo'', member os ''logo''),
     (''version'', member os ''version''),
     (''downloadChecksum'', member img ''checksum''),
     (''downloadChecksumType'',
        if truthy (member img ''checksumType'') then member img ''checksumType''
        else JStr ''md5'')]"
  from os have toJS: "getIn_toJS (selection_os st) = Inr os" and set: "is_set (selection_os st)"
    by (cases os; simp)+
  have cascade: "storeReducer c (State st) \<lparr>type = ''SELECT_DRIVE'', data = JStr d\<rparr> =
     update_state (\<lambda>s. s\<lparr>selection_drive := Some d\<rparr>)
       (attempt (storeReducer c (State st) \<lparr>type = ''SELECT_IMAGE'', data = payload\<rparr>))"
    using found d unprotected os img toJS
    by (simp add: reduce_SELECT_DRIVE Let_def payload js_or_def
          attempted_returns [OF select_image_returns])
  have accepted: "storeReducer c (State st) \<lparr>type = ''SELECT_DRIVE'', data = JStr d\<rparr> =
        Inr (State (st\<lparr>selection_image := Some payload, selection_drive := Some d\<rparr>))"
    if "storeReducer c (State st) \<lparr>type = ''SELECT_IMAGE'', data = payload\<rparr> = Inr r" for r
  proof -
    from that set have "r = State (st\<lparr>selection_image := Some payload\<rparr>)"
      by (simp add: reduce_SELECT_IMAGE Let_def cannot_read_def split: if_splits)
    with that show ?thesis
      by (simp add: cascade)
  qed
  from cascade accepted
  show "storeReducer c (State st) \<lparr>type = ''SELECT_DRIVE'', data = JStr d\<rparr> =
     update_state (\<lambda>s. s\<lparr>selection_drive := Some d\<rparr>)
       (attempt (storeReducer c (State st) \<lparr>type = ''SELECT_IMAGE'', data = payload\<rparr>)) \<and>
   (\<forall>r. storeReducer c (State st) \<lparr>type = ''SELECT_IMAGE'', data = payload\<rparr> = Inr r \<longrightarrow>
      storeReducer c (State st) \<lparr>type = ''SELECT_DRIVE'', data = JStr d\<rparr> =
        Inr (State (st\<lparr>selection_image := Some payload, selection_drive := Some d\<rparr>)))"
    by blast
qed

theorem select_drive_cascade_payload_witness:
  "storeReducer test_constraints (State debian_offered)
     \<lparr>type = ''SELECT_IMAGE'',
      data = JObj [
        (''path'', JStr ''https://example.org/debian.img.xz''),
        (''size'', JNum (Fin 8000000000)),
        (''logo'', JStr ''debian.svg''),
        (''version'', JStr ''9''),
        (''downloadChecksum'', JStr ''0cc175b9c0f1b6a831c399e269772661''),
        (''downloadChecksumType'', JStr ''md5'')]\<rparr> =
     Inr (State (debian_offered\<lparr>
       selection_image := Some (JObj [
         (''path'', JStr ''https://example.org/debian.img.xz''),
         (''size'', JNum (Fin 8000000000)),
         (''logo'', JStr ''debian.svg''),
         (''version'', JStr ''9''),
         (''downloadChecksum'', JStr ''0cc175b9c0f1b6a831c399e269772661''),
         (''downloadChecksumType'', JStr ''md5'')])\<rparr>)) \<and>
   storeReducer test_constraints (State debian_offered)
     \<lparr>type = ''SELECT_DRIVE'', data = JStr ''/dev/sda''\<rparr> =
     Inr (State (debian_offered\<lparr>
       selection_image := Some (JObj [
         (''path'', JStr ''https://example.org/debian.img.xz''),
         (''size'', JNum (Fin 8000000000)),
         (''logo'', JStr ''debian.svg''),
         (''version'', JStr ''9''),
         (''downloadChecksum'', JStr ''0cc175b9c0f1b6a831c399e269772661''),
         (''downloadChecksumType'', JStr ''md5'')]),
       selection_drive := Some ''/dev/sda''\<rparr>))"
proof -
  let ?payload = "JObj [
         (''path'', JStr ''https://example.org/debian.img.xz''),
         (''size'', JNum (Fin 8000000000)),
         (''logo'', JStr ''debian.svg''),
         (''version'', JStr ''9''),
         (''downloadChecksum'', JStr ''0cc175b9c0f1b6a831c399e269772661''),
         (''downloadChecksumType'', JStr ''md5'')]"
  have hyps: "find_drive (JStr ''/dev/sda'') (availableDrives debian_offered) =
      Some (sda @ [(''recommendedImage'', debian_image)]) \<and> ''/dev/sda'' \<noteq> [] \<and>
    \<not> truthy (get (sda @ [(''recommendedImage'', debian_image)]) ''protected'') \<and>
    selection_os debian_offered = Some debian \<and> isObject debian \<and> \<not> isEmpty debian \<and>
    get (sda @ [(''recommendedImage'', debian_image)]) ''recommendedImage'' = debian_image \<and>
    truthy debian_image \<and>
    ?payload = JObj [
     (''path'', member debian_image ''url''),
     (''size'', member debian_image ''recommendedDriveSize''),
     (''logo'', member debian ''logo''),
     (''version'', member debian ''version''),
     (''downloadChecksum'', member debian_image ''checksum''),
     (''downloadChecksumType'',
        if truthy (member debian_image ''checksumType'') then member debian_image ''checksumType''
        else JStr ''md5'')]"
    by (simp add: model_defs debian_offered_def sda_def sdb_def debian_def debian_image_def)
  have accepted: "storeReducer test_constraints (State debian_offered)
      \<lparr>type = ''SELECT_IMAGE'', data = ?payload\<rparr> =
      Inr (State (debian_offered\<lparr>selection_image := Some ?payload\<rparr>))"
    by (simp add: storeReducer.simps model_defs debian_offered_def sda_def sdb_def debian_def debian_image_def Let_def)
  from hyps accepted
    select_drive_cascade_payload [of "''/dev/sda''" debian_offered
      "sda @ [(''recommendedImage'', debian_image)]" debian debian_image ?payload
      test_constraints]
  show ?thesis
    by simp
qed

text \<open>
  C4, as stated, fails for the size: the payload carries the image's
  \<^verbatim>\<open>recommendedDriveSize\<close> (8 GB here), not its \<^verbatim>\<open>size\<close> (2 GB).
\<close>

theorem select_drive_cascade_payload_counterexample:
  "dispatch_all test_constraints (State DEFAULT_STATE)
     [\<lparr>type = ''SELECT_OS'', data = debian\<rparr>,
      \<lparr>type = ''SET_AVAILABLE_DRIVES'', data = JArr [JObj sda, JObj sdb]\<rparr>] =
     State debian_offered \<and>
   find_drive (JStr ''/dev/sda'') (availableDrives debian_offered) =
     Some (sda @ [(''recommendedImage'', debian_image)]) \<and>
   member debian_image ''size'' = JNum (Fin 2000000000) \<and>
   storeReducer test_constraints (State debian_offered)
     \<lparr>type = ''SELECT_DRIVE'', data = JStr ''/dev/sda''\<rparr> =
     Inr (State (debian_offered\<lparr>
       selection_image := Some (JObj [
         (''path'', JStr ''https://example.org/debian.img.xz''),
         (''size'', JNum (Fin 8000000000)),
         (''logo'', JStr ''debian.svg''),
         (''version'', JStr ''9''),
         (''downloadChecksum'', JStr ''0cc175b9c0f1b6a831c399e269772661''),
         (''downloadChecksumType'', JStr ''md5'')]),
       selection_drive := Some ''/dev/sda''\<rparr>))"
  by (simp add: storeReducer.simps model_defs debian_offered_def sda_def sdb_def debian_def debian_image_def Let_def)

section \<open>The end of a flash\<close>

text \<open>
  C5, as the code has it. \<^verbatim>\<open>UNSET_FLASHING_FLAG\<close> throws when \<^verbatim>\<open>data\<close> is absent, when
  \<^verbatim>\<open>cancelled\<close> is given and not boolean, when \<^verbatim>\<open>cancelled\<close> is true and
  \<^verbatim>\<open>sourceChecksum\<close> is truthy, when \<^verbatim>\<open>sourceChecksum\<close> is truthy but not a string, or when
  \<^verbatim>\<open>errorCode\<close> is truthy but neither string nor number. On any other object payload
  (\<^verbatim>\<open>cancelled\<close> defaulted to false when omitted) it returns the state with \<^verbatim>\<open>isFlashing\<close>
  false, \<^verbatim>\<open>flashResults\<close> replaced by the payload and \<^verbatim>\<open>flashState\<close> reset to the
  default record.
\<close>

theorem unset_flashing_flag_contract:
  "(nullish d \<longrightarrow>
      storeReducer c (State st) \<lparr>type = ''UNSET_FLASHING_FLAG'', data = d\<rparr> =
        Inl (Error ''Missing results'')) \<and>
   (get kvs ''cancelled'' \<noteq> JUndefined \<and> \<not> isBoolean (get kvs ''cancelled'') \<longrightarrow>
      isl (storeReducer c (State st) \<lparr>type = ''UNSET_FLASHING_FLAG'', data = JObj kvs\<rparr>)) \<and>
   (get kvs ''cancelled'' = JBool True \<and> truthy (get kvs ''sourceChecksum'') \<longrightarrow>
      isl (storeReducer c (State st) \<lparr>type = ''UNSET_FLASHING_FLAG'', data = JObj kvs\<rparr>)) \<and>
   (truthy (get kvs ''sourceChecksum'') \<and> \<not> isString (get kvs ''sourceChecksum'') \<longrightarrow>
      isl (storeReducer c (State st) \<lparr>type = ''UNSET_FLASHING_FLAG'', data = JObj kvs\<rparr>)) \<and>
   (truthy (get kvs ''errorCode'') \<and> \<not> isString (get kvs ''errorCode'') \<and>
    \<not> isNumber (get kvs ''errorCode'') \<longrightarrow>
      isl (storeReducer c (State st) \<lparr>type = ''UNSET_FLASHING_FLAG'', data = JObj kvs\<rparr>)) \<and>
   ((get kvs ''cancelled'' = JUndefined \<or> isBoolean (get kvs ''cancelled'')) \<and>
    \<not> (get kvs ''cancelled'' = JBool True \<and> truthy (get kvs ''sourceChecksum'')) \<and>
    (truthy (get kvs ''sourceChecksum'') \<longrightarrow> isString (get kvs ''sourceChecksum'')) \<and>
    (truthy (get kvs ''errorCode'') \<longrightarrow>
       isString (get kvs ''errorCode'') \<or> isNumber (get kvs ''errorCode'')) \<longrightarrow>
      storeReducer c (State st) \<lparr>type = ''UNSET_FLASHING_FLAG'', data = JObj kvs\<rparr> =
        Inr (State (st\<lparr>
          isFlashing := False,
          flashResults :=
            JObj (if get kvs ''cancelled'' = JUndefined
                  then AList.update ''cancelled'' (JBool False) kvs else kvs),
          flashState := flashState DEFAULT_STATE\<rparr>)))"
proof -
  have absent: "nullish d \<Longrightarrow> \<not> truthy d"
    by (cases d) simp_all
  show ?thesis
    apply (intro conjI impI)
    subgoal by (simp add: reduce_UNSET_FLASHING_FLAG absent)
    subgoal by (simp add: reduce_UNSET_FLASHING_FLAG Let_def)
    subgoal by (simp add: reduce_UNSET_FLASHING_FLAG Let_def)
    subgoal by (simp add: reduce_UNSET_FLASHING_FLAG Let_def get_update_other)
    subgoal by (simp add: reduce_UNSET_FLASHING_FLAG Let_def get_update_other)
    subgoal by (cases "get kvs ''cancelled''")
       (auto simp add: reduce_UNSET_FLASHING_FLAG Let_def get_update_other get_update_same)
    done
qed

theorem unset_flashing_flag_contract_witness:
  "storeReducer test_constraints (State flashing)
     \<lparr>type = ''UNSET_FLASHING_FLAG'', data = JUndefined\<rparr> = Inl (Error ''Missing results'') \<and>
   isl (storeReducer test_constraints (State flashing)
     \<lparr>type = ''UNSET_FLASHING_FLAG'', data = JObj [(''cancelled'', JStr ''yes'')]\<rparr>) \<and>
   isl (storeReducer test_constraints (State flashing)
     \<lparr>type = ''UNSET_FLASHING_FLAG'',
      data = JObj [(''cancelled'', JBool True), (''sourceChecksum'', JStr ''abc'')]\<rparr>) \<and>
   isl (storeReducer test_constraints (State flashing)
     \<lparr>type = ''UNSET_FLASHING_FLAG'', data = JObj [(''sourceChecksum'', JNum (Fin 123))]\<rparr>) \<and>
   isl (storeReducer test_constraints (State flashing)
     \<lparr>type = ''UNSET_FLASHING_FLAG'', data = JObj [(''errorCode'', JBool True)]\<rparr>) \<and>
   storeReducer test_constraints (State flashing)
     \<lparr>type = ''UNSET_FLASHING_FLAG'', data = JObj [(''cancelled'', JBool True)]\<rparr> =
     Inr (State (flashing\<lparr>isFlashing := False,
       flashResults := JObj [(''cancelled'', JBool True)],
       flashState := flashState DEFAULT_STATE\<rparr>)) \<and>
   storeReducer test_constraints (State flashing)
     \<lparr>type = ''UNSET_FLASHING_FLAG'', data = JObj [(''sourceChecksum'', JStr ''abc'')]\<rparr> =
     Inr (State (flashing\<lparr>isFlashing := False,
       flashResults := JObj [(''sourceChecksum'', JStr ''abc''), (''cancelled'', JBool False)],
       flashState := flashState DEFAULT_STATE\<rparr>))"
  using
    unset_flashing_flag_contract [of JUndefined test_constraints flashing "[]"]
    unset_flashing_flag_contract [of JUndefined test_constraints flashing
      "[(''cancelled'', JStr ''yes'')]"]
    unset_flashing_flag_contract [of JUndefined test_constraints flashing
      "[(''cancelled'', JBool True), (''sourceChecksum'', JStr ''abc'')]"]
    unset_flashing_flag_contract [of JUndefined test_constraints flashing
      "[(''sourceChecksum'', JNum (Fin 123))]"]
    unset_flashing_flag_contract [of JUndefined test_constraints flashing
      "[(''errorCode'', JBool True)]"]
    unset_flashing_flag_contract [of JUndefined test_constraints flashing
      "[(''cancelled'', JBool True)]"]
    unset_flashing_flag_contract [of JUndefined test_constraints flashing
      "[(''sourceChecksum'', JStr ''abc'')]"]
  by (simp add: get_def)

text \<open>
  C5, as stated, fails for optional fields that are present but falsy: the guards are
  \<^verbatim>\<open>cancelled && sourceChecksum\<close>, \<^verbatim>\<open>sourceChecksum && !_.isString(sourceChecksum)\<close> and
  \<^verbatim>\<open>errorCode && !_.isString(errorCode) && !_.isNumber(errorCode)\<close>. A cancelled result
  whose \<^verbatim>\<open>sourceChecksum\<close> is the number 0 is accepted, and so is a result whose
  \<^verbatim>\<open>errorCode\<close> is \<^verbatim>\<open>false\<close>.
\<close>

theorem unset_flashing_flag_counterexample:
  "get [(''cancelled'', JBool True), (''sourceChecksum'', JNum (Fin 0))] ''cancelled'' = JBool True \<and>
   get [(''cancelled'', JBool True), (''sourceChecksum'', JNum (Fin 0))] ''sourceChecksum'' =
     JNum (Fin 0) \<and>
   \<not> isString (JNum (Fin 0)) \<and>
   storeReducer test_constraints (State flashing)
     \<lparr>type = ''UNSET_FLASHING_FLAG'',
      data = JObj [(''cancelled'', JBool True), (''sourceChecksum'', JNum (Fin 0))]\<rparr> =
     Inr (State (flashing\<lparr>isFlashing := False,
       flashResults := JObj [(''cancelled'', JBool True), (''sourceChecksum'', JNum (Fin 0))],
       flashState := flashState DEFAULT_STATE\<rparr>)) \<and>
   get [(''cancelled'', JBool False), (''errorCode'', JBool False)] ''errorCode'' = JBool False \<and>
   \<not> isString (JBool False) \<and> \<not> isNumber (JBool False) \<and>
   storeReducer test_constraints (State flashing)
     \<lparr>type = ''UNSET_FLASHING_FLAG'',
      data = JObj [(''cancelled'', JBool False), (''errorCode'', JBool False)]\<rparr> =
     Inr (State (flashing\<lparr>isFlashing := False,
       flashResults := JObj [(''cancelled'', JBool False), (''errorCode'', JBool False)],
       flashState := flashState DEFAULT_STATE\<rparr>))"
  by (simp add: storeReducer.simps model_defs flashing_def Let_def)

section \<open>Payload validation\<close>

text \<open>
  C6, as the code has it. \<^verbatim>\<open>SET_FLASH_STATE\<close> throws whenever \<^verbatim>\<open>isFlashing\<close> is false.
  When \<^verbatim>\<open>isFlashing\<close> is true and the payload has a non-empty string \<^verbatim>\<open>type\<close>, a number
  \<^verbatim>\<open>percentage\<close>, a number \<^verbatim>\<open>eta\<close> other than \<^verbatim>\<open>NaN\<close> (zero allowed) and a \<^verbatim>\<open>speed\<close>
  that is neither \<^verbatim>\<open>undefined\<close> nor \<^verbatim>\<open>null\<close>, the reducer returns the state with
  \<^verbatim>\<open>flashState\<close> replaced by the payload.
\<close>

theorem set_flash_state_contract:
  "(\<not> isFlashing st \<longrightarrow>
      storeReducer c (State st) \<lparr>type = ''SET_FLASH_STATE'', data = d\<rparr> =
        Inl (Error ''Can't set the flashing state when not flashing'')) \<and>
   (isFlashing st \<and>
    member d ''type'' = JStr t \<and> t \<noteq> [] \<and>
    member d ''percentage'' = JNum p \<and>
    member d ''eta'' = JNum e \<and> e \<noteq> NaN \<and>
    \<not> isUndefined (member d ''speed'') \<and> \<not> isNull (member d ''speed'') \<longrightarrow>
      storeReducer c (State st) \<lparr>type = ''SET_FLASH_STATE'', data = d\<rparr> =
        Inr (State (st\<lparr>flashState := d\<rparr>)))"
  using member_not_nullish [of d "''type''"]
  by (simp add: storeReducer.simps [of c "State st" "\<lparr>type = ''SET_FLASH_STATE'', data = d\<rparr>"])

theorem set_flash_state_contract_witness:
  "storeReducer test_constraints (State DEFAULT_STATE)
     \<lparr>type = ''SET_FLASH_STATE'',
      data = JObj [(''type'', JStr ''decompressing''), (''percentage'', JNum (Fin 50)),
                   (''eta'', JNum (Fin 0)), (''speed'', JNum (Fin 1000000))]\<rparr> =
     Inl (Error ''Can't set the flashing state when not flashing'') \<and>
   storeReducer test_constraints (State flashing)
     \<lparr>type = ''SET_FLASH_STATE'',
      data = JObj [(''type'', JStr ''decompressing''), (''percentage'', JNum (Fin 50)),
                   (''eta'', JNum (Fin 0)), (''speed'', JNum (Fin 1000000))]\<rparr> =
     Inr (State (flashing\<lparr>flashState :=
       JObj [(''type'', JStr ''decompressing''), (''percentage'', JNum (Fin 50)),
             (''eta'', JNum (Fin 0)), (''speed'', JNum (Fin 1000000))]\<rparr>))"
  using
    set_flash_state_contract [of DEFAULT_STATE test_constraints
      "JObj [(''type'', JStr ''decompressing''), (''percentage'', JNum (Fin 50)),
             (''eta'', JNum (Fin 0)), (''speed'', JNum (Fin 1000000))]"
      "''decompressing''" "Fin 50" "Fin 0"]
    set_flash_state_contract [of flashing test_constraints
      "JObj [(''type'', JStr ''decompressing''), (''percentage'', JNum (Fin 50)),
             (''eta'', JNum (Fin 0)), (''speed'', JNum (Fin 1000000))]"
      "''decompressing''" "Fin 50" "Fin 0"]
  by (simp add: get_def flashing_def DEFAULT_STATE_def)

text \<open>
  C6, as stated, fails for the number \<^verbatim>\<open>NaN\<close>: \<^verbatim>\<open>!eta && eta !== 0\<close> holds for it, so a
  payload whose \<^verbatim>\<open>eta\<close> is \<^verbatim>\<open>NaN\<close> is rejected as having no \<^verbatim>\<open>eta\<close> although
  \<^verbatim>\<open>_.isNumber(NaN)\<close> is true.
\<close>

theorem set_flash_state_nan_eta_counterexample:
  "isFlashing flashing \<and>
   isNumber (JNum NaN) \<and>
   storeReducer test_constraints (State flashing)
     \<lparr>type = ''SET_FLASH_STATE'',
      data = JObj [(''type'', JStr ''decompressing''), (''percentage'', JNum (Fin 50)),
                   (''eta'', JNum NaN), (''speed'', JNum (Fin 1000000))]\<rparr> =
     Inl (Error ''Missing state eta'')"
  by (simp add: storeReducer.simps get_def flashing_def DEFAULT_STATE_def)

text \<open>
  C10. \<^verbatim>\<open>SELECT_IMAGE\<close> treats a falsy required field as missing: with a well-formed
  \<^verbatim>\<open>path\<close>, a \<^verbatim>\<open>size\<close> of 0 throws "Missing image size" although 0 is a number, and an
  empty-string \<^verbatim>\<open>path\<close> throws "Missing image path" although it is a string. Both hold
  whatever the state is, since the payload is checked before the state is read.
\<close>

theorem select_image_falsy_required_fields:
  "(member d ''path'' = JStr p \<and> p \<noteq> [] \<and> member d ''size'' = JNum (Fin 0) \<longrightarrow>
      isNumber (member d ''size'') \<and>
      storeReducer c s \<lparr>type = ''SELECT_IMAGE'', data = d\<rparr> =
        Inl (Error ''Missing image size'')) \<and>
   (member d ''path'' = JStr [] \<longrightarrow>
      isString (member d ''path'') \<and>
      storeReducer c s \<lparr>type = ''SELECT_IMAGE'', data = d\<rparr> =
        Inl (Error ''Missing image path''))"
  using member_not_nullish [of d "''path''"]
  by (simp add: storeReducer.simps [of c s "\<lparr>type = ''SELECT_IMAGE'', data = d\<rparr>"])

theorem select_image_falsy_required_fields_witness:
  "storeReducer test_constraints (State DEFAULT_STATE)
     \<lparr>type = ''SELECT_IMAGE'',
      data = JObj [(''path'', JStr ''foo.img''), (''size'', JNum (Fin 0))]\<rparr> =
     Inl (Error ''Missing image size'') \<and>
   storeReducer test_constraints (State DEFAULT_STATE)
     \<lparr>type = ''SELECT_IMAGE'',
      data = JObj [(''path'', JStr []), (''size'', JNum (Fin 1000))]\<rparr> =
     Inl (Error ''Missing image path'')"
  using
    select_image_falsy_required_fields [of
      "JObj [(''path'', JStr ''foo.img''), (''size'', JNum (Fin 0))]" "''foo.img''"
      test_constraints "State DEFAULT_STATE"]
    select_image_falsy_required_fields [of
      "JObj [(''path'', JStr []), (''size'', JNum (Fin 1000))]" "''foo.img''"
      test_constraints "State DEFAULT_STATE"]
  by (simp add: get_def)

section \<open>Settings\<close>

text \<open>
  C7. Round trip of \<^verbatim>\<open>SET_SETTING\<close>: for a supported key and a value that is not an object,
  the dispatch returns a state in which reading the key from \<^verbatim>\<open>settings\<close> gives the value.
  For any payload whose key is not one of the default setting keys the reducer throws, and
  the store keeps the snapshot it had; for a non-empty string key the error is
  "Unsupported setting".
\<close>

theorem set_setting_round_trip:
  "(has (settings DEFAULT_STATE) k \<and> \<not> isObject v \<and>
    member d ''key'' = JStr k \<and> member d ''value'' = v \<longrightarrow>
      (\<exists>s'. storeReducer c (State st) \<lparr>type = ''SET_SETTING'', data = d\<rparr> = Inr (State s') \<and>
            get (settings s') k = v)) \<and>
   (\<not> (\<exists>k'. member d ''key'' = JStr k' \<and> has (settings DEFAULT_STATE) k') \<longrightarrow>
      isl (storeReducer c (State st) \<lparr>type = ''SET_SETTING'', data = d\<rparr>) \<and>
      fst (dispatch c (State st) \<lparr>type = ''SET_SETTING'', data = d\<rparr>) = State st) \<and>
   (member d ''key'' = JStr k \<and> k \<noteq> [] \<and> \<not> has (settings DEFAULT_STATE) k \<longrightarrow>
      storeReducer c (State st) \<lparr>type = ''SET_SETTING'', data = d\<rparr> =
        Inl (ErrorWith ''Unsupported setting: '' (JStr k)))"
proof (intro conjI impI)
  assume "has (settings DEFAULT_STATE) k \<and> \<not> isObject v \<and>
    member d ''key'' = JStr k \<and> member d ''value'' = v"
  then show "\<exists>s'. storeReducer c (State st) \<lparr>type = ''SET_SETTING'', data = d\<rparr> = Inr (State s') \<and>
            get (settings s') k = v"
    using member_not_nullish [of d "''key''"] has_nonempty [of k]
    by (simp add: reduce_SET_SETTING Let_def get_update_same)
next
  assume unsupported: "\<not> (\<exists>k'. member d ''key'' = JStr k' \<and> has (settings DEFAULT_STATE) k')"
  have throws: "isl (storeReducer c (State st) \<lparr>type = ''SET_SETTING'', data = d\<rparr>)"
  proof (cases "member d ''key''")
    case (JStr k')
    with unsupported have "\<not> has (settings DEFAULT_STATE) k'"
      by simp
    with JStr show ?thesis
      by (simp add: reduce_SET_SETTING Let_def cannot_read_def)
  qed (simp_all add: reduce_SET_SETTING Let_def cannot_read_def)
  then show "isl (storeReducer c (State st) \<lparr>type = ''SET_SETTING'', data = d\<rparr>)" .
  from throws show "fst (dispatch c (State st) \<lparr>type = ''SET_SETTING'', data = d\<rparr>) = State st"
    by (cases "storeReducer c (State st) \<lparr>type = ''SET_SETTING'', data = d\<rparr>")
       (simp_all add: dispatch_def)
next
  assume "member d ''key'' = JStr k \<and> k \<noteq> [] \<and> \<not> has (settings DEFAULT_STATE) k"
  then show "storeReducer c (State st) \<lparr>type = ''SET_SETTING'', data = d\<rparr> =
        Inl (ErrorWith ''Unsupported setting: '' (JStr k))"
    using member_not_nullish [of d "''key''"]
    by (simp add: reduce_SET_SETTING Let_def)
qed

theorem set_setting_round_trip_witness:
  "(\<exists>s'. storeReducer test_constraints (State DEFAULT_STATE)
           \<lparr>type = ''SET_SETTING'',
            data = JObj [(''key'', JStr ''unsafeMode''), (''value'', JBool True)]\<rparr> =
           Inr (State s') \<and>
         get (settings s') ''unsafeMode'' = JBool True) \<and>
   storeReducer test_constraints (State DEFAULT_STATE)
     \<lparr>type = ''SET_SETTING'',
      data = JObj [(''key'', JStr ''theme''), (''value'', JBool True)]\<rparr> =
     Inl (ErrorWith ''Unsupported setting: '' (JStr ''theme'')) \<and>
   fst (dispatch test_constraints (State DEFAULT_STATE)
     \<lparr>type = ''SET_SETTING'',
      data = JObj [(''key'', JStr ''theme''), (''value'', JBool True)]\<rparr>) =
     State DEFAULT_STATE"
proof -
  have supported: "has (settings DEFAULT_STATE) ''unsafeMode''"
    and unsupported: "\<not> has (settings DEFAULT_STATE) ''theme''"
    by (simp_all add: has_def DEFAULT_STATE_def)
  show ?thesis
    using supported unsupported
      set_setting_round_trip [of "''unsafeMode''" "JBool True"
        "JObj [(''key'', JStr ''unsafeMode''), (''value'', JBool True)]"
        test_constraints DEFAULT_STATE]
      set_setting_round_trip [of "''theme''" "JBool True"
        "JObj [(''key'', JStr ''theme''), (''value'', JBool True)]"
        test_constraints DEFAULT_STATE]
    by (simp add: get_def)
qed

text \<open>
  Apart from \<^verbatim>\<open>SET_SETTING\<close> no kind of action, known or not, changes the settings of a
  state it returns, cascades included.
\<close>

lemma settings_kept_when_state_returned:
  "storeReducer c (State st) a = Inr (State s') \<Longrightarrow> type a \<noteq> ''SET_SETTING'' \<Longrightarrow>
   settings s' = settings st"
  using reducer_step [of c st a s'] by simp

text \<open>
  C9 does not hold of the code, through the defect shown for C2. \<^verbatim>\<open>SELECT_OS\<close> is a
  catalogue kind other than \<^verbatim>\<open>SET_SETTING\<close>, and at the snapshot reached below (the
  selected card has become write-protected) what the reducer returns as the next state is
  an \<^verbatim>\<open>Error\<close> object. It has no settings subtree: reading it with
  \<^verbatim>\<open>state.get('settings')\<close> is a \<^verbatim>\<open>TypeError\<close>, while the state that went in had its
  settings.
\<close>

theorem select_os_loses_settings:
  "dispatch_all test_constraints (State DEFAULT_STATE)
     [\<lparr>type = ''SET_AVAILABLE_DRIVES'', data = JArr [JObj sda, JObj sdb]\<rparr>,
      \<lparr>type = ''SELECT_DRIVE'', data = JStr ''/dev/sda''\<rparr>,
      \<lparr>type = ''SET_AVAILABLE_DRIVES'', data = JArr [JObj sda_locked, JObj sdb]\<rparr>] =
     State locked_sda_selected \<and>
   ''SELECT_OS'' \<in> set ACTIONS \<and> ''SELECT_OS'' \<noteq> ''SET_SETTING'' \<and>
   map_sum id settings (as_map (State locked_sda_selected)) = Inr (settings DEFAULT_STATE) \<and>
   map_sum id as_map
     (storeReducer test_constraints (State locked_sda_selected)
        \<lparr>type = ''SELECT_OS'', data = debian\<rparr>) =
     Inr (Inl (TypeError ''not a function''))"
  by (simp add: storeReducer.simps model_defs ACTIONS_def locked_sda_selected_def sda_def
        sdb_def sda_locked_def debian_def debian_image_def Let_def)

section \<open>Unknown actions\<close>

text \<open>
  C8. For every state and every action whose \<^verbatim>\<open>type\<close> is not one of the twelve kinds of
  \<^verbatim>\<open>ACTIONS\<close>, the reducer returns the state unchanged and does not throw.
\<close>

theorem unknown_action_is_noop:
  "type a \<notin> set ACTIONS \<Longrightarrow> storeReducer c (State st) a = Inr (State st)"
  by (simp add: storeReducer.simps [of c "State st" a] ACTIONS_def)

theorem unknown_action_is_noop_witness:
  "''@@redux/INIT'' \<notin> set ACTIONS \<and>
   storeReducer test_constraints (State DEFAULT_STATE)
     \<lparr>type = ''@@redux/INIT'', data = JUndefined\<rparr> = Inr (State DEFAULT_STATE)"
proof -
  have unknown: "type \<lparr>type = ''@@redux/INIT'', data = JUndefined\<rparr> \<notin> set ACTIONS"
    by (simp add: ACTIONS_def)
  show ?thesis
    using unknown unknown_action_is_noop [OF unknown, of test_constraints DEFAULT_STATE]
    by simp
qed

end
